theory Spec2Isabelle
  imports Main
begin

section \<open>Paths as \<^verbatim>\<open>pathlib\<close> keeps them\<close>

text \<open>
  \<^verbatim>\<open>import_dwarf.py\<close> handles every file name as a \<^verbatim>\<open>pathlib.Path\<close>. On a POSIX
  host such a path is a root (empty, one slash or two slashes) and a list of components;
  the components are never empty, never \<^verbatim>\<open>.\<close> and hold no slash.
\<close>

record path =
  path_root :: string
  path_tail :: "string list"

definition path_wf :: "path \<Rightarrow> bool" where
  "path_wf p \<longleftrightarrow>
     path_root p \<in> {'''', ''/'', ''//''} \<and>
     (\<forall>c \<in> set (path_tail p). c \<noteq> [] \<and> c \<noteq> ''.'' \<and> CHR ''/'' \<notin> set c)"

text \<open>\<^verbatim>\<open>str.split(sep)\<close> for a one-character separator.\<close>

fun split_sep :: "char \<Rightarrow> string \<Rightarrow> string list" where
  "split_sep c [] = [[]]"
| "split_sep c (x # xs) =
     (if x = c then [] # split_sep c xs
      else (case split_sep c xs of
              [] \<Rightarrow> [[x]]
            | y # ys \<Rightarrow> (x # y) # ys))"

text \<open>\<^verbatim>\<open>sep.join(parts)\<close>.\<close>

fun join_sep :: "char \<Rightarrow> string list \<Rightarrow> string" where
  "join_sep c [] = []"
| "join_sep c [x] = x"
| "join_sep c (x # y # ys) = x @ c # join_sep c (y # ys)"

text \<open>\<^verbatim>\<open>posixpath.splitroot\<close>, without the drive, which is always empty on POSIX.\<close>

definition splitroot :: "string \<Rightarrow> string \<times> string" where
  "splitroot p =
     (if take 1 p \<noteq> ''/'' then ('''', p)
      else if take 1 (drop 1 p) \<noteq> ''/'' \<or> take 1 (drop 2 p) = ''/'' then (''/'', drop 1 p)
      else (''//'', drop 2 p))"

text \<open>\<^verbatim>\<open>Path(s)\<close>: the constructor parses a string.\<close>

definition Path :: "string \<Rightarrow> path" where
  "Path s =
     \<lparr>path_root = fst (splitroot s),
      path_tail = filter (\<lambda>x. x \<noteq> [] \<and> x \<noteq> ''.'') (split_sep CHR ''/'' (snd (splitroot s)))\<rparr>"

text \<open>\<^verbatim>\<open>str(p)\<close>, which is also what an f-string renders.\<close>

definition path_str :: "path \<Rightarrow> string" where
  "path_str p =
     (let s = path_root p @ join_sep CHR ''/'' (path_tail p)
      in if s = [] then ''.'' else s)"

text \<open>\<^verbatim>\<open>p.name\<close>: the last component, empty for \<^verbatim>\<open>.\<close> and for a bare root.\<close>

definition path_name :: "path \<Rightarrow> string" where
  "path_name p = (if path_tail p = [] then [] else last (path_tail p))"

text \<open>\<^verbatim>\<open>str.rfind(c)\<close>: the last index of a character, or \<open>-1\<close>.\<close>

fun rfind :: "char \<Rightarrow> string \<Rightarrow> int" where
  "rfind c [] = - 1"
| "rfind c (x # xs) =
     (let r = rfind c xs
      in if 0 \<le> r then r + 1 else if x = c then 0 else - 1)"

text \<open>
  \<^verbatim>\<open>p.suffix\<close>, as \<^verbatim>\<open>pathlib\<close> computes it in the releases before 3.14: the part
  of the name from its last dot, unless that dot is the first or the last character of
  the name.
\<close>

definition path_suffix :: "path \<Rightarrow> string" where
  "path_suffix p =
     (let n = path_name p; i = rfind CHR ''.'' n
      in if 0 < i \<and> i < int (length n) - 1 then drop (nat i) n else [])"

text \<open>\<^verbatim>\<open>s.endswith(t)\<close>.\<close>

definition endswith :: "string \<Rightarrow> string \<Rightarrow> bool" where
  "endswith s t \<longleftrightarrow> length t \<le> length s \<and> drop (length s - length t) s = t"

text \<open>\<^verbatim>\<open>p / s\<close> for a string segment: an absolute segment replaces the path.\<close>

definition joinpath :: "path \<Rightarrow> string \<Rightarrow> path" where
  "joinpath p s =
     (let q = Path s
      in if path_root q \<noteq> [] then q
         else \<lparr>path_root = path_root p, path_tail = path_tail p @ path_tail q\<rparr>)"

text \<open>
  A \<^verbatim>\<open>Path\<close> defines neither \<^verbatim>\<open>__bool__\<close> nor \<^verbatim>\<open>__len__\<close>, so every path object is
  true in a condition, the path \<^verbatim>\<open>.\<close> included.
\<close>

definition path_bool :: "path \<Rightarrow> bool" where
  "path_bool p = True"

section \<open>Errors\<close>

datatype error =
    NameError string
  | AttributeError string
  | ValueError string
  | FileNotFoundError string
  | AssertionError
  | ParserError string
  | PlatformError string

text \<open>
  \<^verbatim>\<open>p.with_suffix(suffix)\<close>, with its three refusals: a suffix holding a separator, a
  suffix that is not empty and does not start with a dot (or is the dot alone), and a path
  whose name is empty.
\<close>

definition with_suffix :: "path \<Rightarrow> string \<Rightarrow> error + path" where
  "with_suffix p suffix =
     (if CHR ''/'' \<in> set suffix then Inl (ValueError ''Invalid suffix'')
      else if (suffix \<noteq> [] \<and> take 1 suffix \<noteq> ''.'') \<or> suffix = ''.''
        then Inl (ValueError ''Invalid suffix'')
      else let name = path_name p
        in if name = [] then Inl (ValueError ''has an empty name'')
           else let old_suffix = path_suffix p;
                    name' = (if old_suffix = [] then name @ suffix
                             else take (length name - length old_suffix) name @ suffix)
             in Inr \<lparr>path_root = path_root p, path_tail = butlast (path_tail p) @ [name']\<rparr>)"

section \<open>The world outside the script\<close>

text \<open>
  The file system is given by its entries (files and empty directories); a path exists when
  it is an entry or a directory above one. \<^verbatim>\<open>Path.exists()\<close> asks it.
\<close>

type_synonym filesystem = "path list"

definition path_exists :: "filesystem \<Rightarrow> path \<Rightarrow> bool" where
  "path_exists fs p \<longleftrightarrow>
     (\<exists>e \<in> set fs. path_root e = path_root p \<and>
        take (length (path_tail p)) (path_tail e) = path_tail p)"

text \<open>
  The name \<^verbatim>\<open>bv\<close> is not defined by the module: the host's script console binds it.
  Evaluating \<^verbatim>\<open>bv.file.filename\<close> has three outcomes: the name is unbound (the script
  runs outside the console), it is bound to \<^verbatim>\<open>None\<close> (the console has no file open), or
  it is a view with a file name.
\<close>

datatype host_bv = BvUnbound | BvNone | BvView string

definition bv_file_filename :: "host_bv \<Rightarrow> error + string" where
  "bv_file_filename bv =
     (case bv of
        BvUnbound \<Rightarrow> Inl (NameError ''name bv is not defined'')
      | BvNone \<Rightarrow> Inl (AttributeError ''NoneType object has no attribute file'')
      | BvView filename \<Rightarrow> Inr filename)"

text \<open>
  The objects of the analysis platform. Its types are opaque to the script and stand here
  as handles.
\<close>

type_synonym bn_type = nat

record bn_function =
  fn_name :: string
  fn_type :: bn_type

record binary_view =
  bv_arch :: "string option"
  bv_platform :: "string option"
  bv_filename :: string
  bv_types :: "(string \<times> bn_type) list"
  bv_functions :: "bn_function list"

record debug_info =
  di_types :: "(string \<times> bn_type) list"
  di_functions :: "bn_function list"

record type_library =
  tl_arch :: string
  tl_name :: string
  tl_platforms :: "string list"
  tl_alternate_names :: "string list"
  tl_named_types :: "(string \<times> bn_type) list"
  tl_named_objects :: "(string \<times> bn_type) list"
  tl_finalized :: bool

text \<open>
  What the script does to the outside is kept as a trace, in the order of the calls: the
  debug lines it logs, the file-system probe, and the calls into the platform that load,
  analyse and write.
\<close>

datatype event =
    LogDebug string string
  | PathExists path
  | Load string "(string \<times> bool) list"
  | ParseDebugInfo binary_view binary_view
  | ApplyDebugInfo debug_info
  | UpdateAnalysisAndWait
  | WriteToFile type_library string

type_synonym trace = "event list"

text \<open>
  The platform is not part of the repository, so its behaviour is a parameter: each call
  that the specification lets fail returns an error or a result.
\<close>

record platform =
  bn_load :: "string \<Rightarrow> (string \<times> bool) list \<Rightarrow> error + binary_view"
  parse_debug_info :: "binary_view \<Rightarrow> binary_view \<Rightarrow> error + debug_info"
  apply_debug_info :: "binary_view \<Rightarrow> debug_info \<Rightarrow> error + binary_view"
  update_analysis_and_wait :: "binary_view \<Rightarrow> error + binary_view"
  finalize :: "type_library \<Rightarrow> bool"
  write_to_file :: "type_library \<Rightarrow> string \<Rightarrow> error option"

section \<open>The importer\<close>

text \<open>
  An instance of \<^verbatim>\<open>DwarfImporter\<close>: its three paths, the name of its logger, and the two
  caches that the decorators keep for it: \<^verbatim>\<open>cached_property\<close> on \<^verbatim>\<open>base_binaryview\<close> and
  \<^verbatim>\<open>cache\<close> on \<^verbatim>\<open>import_debug_info\<close>.
\<close>

record importer =
  base_file :: path
  dwarf_file :: path
  type_archive :: path
  logger :: string
  base_binaryview_cache :: "binary_view option"
  import_debug_info_cached :: bool

text \<open>\<^verbatim>\<open>DwarfImporter._find_dwarf_file\<close>.\<close>

definition find_dwarf_file :: "filesystem \<Rightarrow> string \<Rightarrow> path \<Rightarrow> trace \<Rightarrow> (error + path) \<times> trace" where
  "find_dwarf_file fs lg base tr =
     (let dsym_path = Path (path_str base @ ''.dSYM'');
          tr1 = tr @ [LogDebug lg (''Looking for DWARF file for '' @ path_str base @ '' @ ''
                        @ path_str dsym_path)];
          tr2 = tr1 @ [PathExists dsym_path]
      in if path_exists fs dsym_path
         then (Inr (joinpath (joinpath (joinpath (joinpath dsym_path ''Contents'')
                       ''Resources'') ''DWARF'') (path_name base)), tr2)
         else (Inl (FileNotFoundError (''Could not find DWARF file for '' @ path_str base)), tr2))"

text \<open>
  \<^verbatim>\<open>DwarfImporter.__init__\<close>. An argument left out is \<^verbatim>\<open>None\<close>; \<^verbatim>\<open>x or y\<close> on an
  optional path takes \<^verbatim>\<open>x\<close> whenever it is a path.
\<close>

definition DwarfImporter_init ::
  "host_bv \<Rightarrow> filesystem \<Rightarrow> path option \<Rightarrow> path option \<Rightarrow> path option \<Rightarrow> trace
     \<Rightarrow> (error + importer) \<times> trace" where
  "DwarfImporter_init bv fs base_file_arg dwarf_file_arg type_archive_arg tr =
     (case (case base_file_arg of
              Some b \<Rightarrow> if path_bool b then Inr b else map_sum id Path (bv_file_filename bv)
            | None \<Rightarrow> map_sum id Path (bv_file_filename bv)) of
        Inl e \<Rightarrow> (Inl e, tr)
      | Inr base \<Rightarrow>
          if \<not> path_bool base
          then (Inl (ValueError ''No base file provided and no file open in BinaryNinja''), tr)
          else
            let lg = ''binaryninja-dwarf.DwarfImporter['' @ path_name base @ '']''
            in (case (case dwarf_file_arg of
                        Some d \<Rightarrow> if path_bool d then (Inr d, tr) else find_dwarf_file fs lg base tr
                      | None \<Rightarrow> find_dwarf_file fs lg base tr) of
                  (Inl e, tr') \<Rightarrow> (Inl e, tr')
                | (Inr d, tr') \<Rightarrow>
                    (case (case type_archive_arg of
                             Some t \<Rightarrow> if path_bool t then Inr t else with_suffix base ''.bntl''
                           | None \<Rightarrow> with_suffix base ''.bntl'') of
                       Inl e \<Rightarrow> (Inl e, tr')
                     | Inr t \<Rightarrow>
                         (Inr \<lparr>base_file = base, dwarf_file = d, type_archive = t, logger = lg,
                               base_binaryview_cache = None, import_debug_info_cached = False\<rparr>,
                          tr'))))"

text \<open>
  \<^verbatim>\<open>DwarfImporter.base_binaryview\<close>, a \<^verbatim>\<open>cached_property\<close>: the first read loads the
  base file with the platform's DWARF import switched on and keeps the view on the
  instance; a load that raises keeps nothing.
\<close>

definition base_binaryview ::
  "platform \<Rightarrow> importer \<times> trace \<Rightarrow> (error + binary_view) \<times> importer \<times> trace" where
  "base_binaryview pl s =
     (case s of (imp, tr) \<Rightarrow>
        (case base_binaryview_cache imp of
           Some v \<Rightarrow> (Inr v, imp, tr)
         | None \<Rightarrow>
             let opts = [(''corePlugins.dwarfImport'', True)];
                 tr1 = tr @ [Load (path_str (base_file imp)) opts]
             in (case bn_load pl (path_str (base_file imp)) opts of
                   Inl e \<Rightarrow> (Inl e, imp, tr1)
                 | Inr v \<Rightarrow> (Inr v, imp\<lparr>base_binaryview_cache := Some v\<rparr>, tr1))))"

text \<open>
  \<^verbatim>\<open>DwarfImporter.import_debug_info\<close>, under \<^verbatim>\<open>functools.cache\<close>: a call that finds the
  instance in the cache returns at once; otherwise the body runs, and only a body that
  returns is entered into the cache. \<^verbatim>\<open>apply_debug_info\<close> and
  \<^verbatim>\<open>update_analysis_and_wait\<close> change the view that the instance holds.
\<close>

definition import_debug_info ::
  "platform \<Rightarrow> importer \<times> trace \<Rightarrow> (error + unit) \<times> importer \<times> trace" where
  "import_debug_info pl s =
     (case s of (imp, tr) \<Rightarrow>
        if import_debug_info_cached imp then (Inr (), imp, tr)
        else
          let tr1 = tr @ [Load (path_str (dwarf_file imp)) []]
          in (case bn_load pl (path_str (dwarf_file imp)) [] of
                Inl e \<Rightarrow> (Inl e, imp, tr1)
              | Inr debug_binaryview \<Rightarrow>
                  (case base_binaryview pl (imp, tr1) of
                     (Inl e, imp2, tr2) \<Rightarrow> (Inl e, imp2, tr2)
                   | (Inr base, imp2, tr2) \<Rightarrow>
                       let tr3 = tr2 @ [ParseDebugInfo base debug_binaryview]
                       in (case parse_debug_info pl base debug_binaryview of
                             Inl e \<Rightarrow> (Inl e, imp2, tr3)
                           | Inr di \<Rightarrow>
                               let tr4 = tr3 @ [ApplyDebugInfo di]
                               in (case apply_debug_info pl base di of
                                     Inl e \<Rightarrow> (Inl e, imp2, tr4)
                                   | Inr base' \<Rightarrow>
                                       let imp3 = imp2\<lparr>base_binaryview_cache := Some base'\<rparr>;
                                           tr5 = tr4 @ [UpdateAnalysisAndWait]
                                       in (case update_analysis_and_wait pl base' of
                                             Inl e \<Rightarrow> (Inl e, imp3, tr5)
                                           | Inr base'' \<Rightarrow>
                                               (Inr (),
                                                imp3\<lparr>base_binaryview_cache := Some base'',
                                                     import_debug_info_cached := True\<rparr>,
                                                tr5)))))))"

text \<open>The type library that \<^verbatim>\<open>export_type_library\<close> builds, call by call.\<close>

definition TypeLibrary_new :: "string \<Rightarrow> string \<Rightarrow> type_library" where
  "TypeLibrary_new arch name =
     \<lparr>tl_arch = arch, tl_name = name, tl_platforms = [], tl_alternate_names = [],
      tl_named_types = [], tl_named_objects = [], tl_finalized = False\<rparr>"

definition add_platform :: "string \<Rightarrow> type_library \<Rightarrow> type_library" where
  "add_platform plat lib = lib\<lparr>tl_platforms := tl_platforms lib @ [plat]\<rparr>"

definition add_alternate_name :: "string \<Rightarrow> type_library \<Rightarrow> type_library" where
  "add_alternate_name n lib = lib\<lparr>tl_alternate_names := tl_alternate_names lib @ [n]\<rparr>"

definition add_named_type :: "string \<Rightarrow> bn_type \<Rightarrow> type_library \<Rightarrow> type_library" where
  "add_named_type n t lib = lib\<lparr>tl_named_types := tl_named_types lib @ [(n, t)]\<rparr>"

definition add_named_object :: "string \<Rightarrow> bn_type \<Rightarrow> type_library \<Rightarrow> type_library" where
  "add_named_object n t lib = lib\<lparr>tl_named_objects := tl_named_objects lib @ [(n, t)]\<rparr>"

text \<open>The two iterations of \<^verbatim>\<open>export_type_library\<close>: over the items of the view's type
  dictionary, then over its functions.\<close>

fun copy_types :: "string \<Rightarrow> (string \<times> bn_type) list \<Rightarrow> type_library \<times> trace \<Rightarrow> type_library \<times> trace" where
  "copy_types lg [] s = s"
| "copy_types lg ((name, ty) # rest) (lib, tr) =
     copy_types lg rest
       (add_named_type name ty lib,
        tr @ [LogDebug lg (''Adding type '' @ name @ '' to type library'')])"

fun copy_functions :: "string \<Rightarrow> bn_function list \<Rightarrow> type_library \<times> trace \<Rightarrow> type_library \<times> trace" where
  "copy_functions lg [] s = s"
| "copy_functions lg (f # rest) (lib, tr) =
     copy_functions lg rest
       (add_named_object (fn_name f) (fn_type f) lib,
        tr @ [LogDebug lg (''Adding function '' @ fn_name f @ '' to type library'')])"

text \<open>\<^verbatim>\<open>str(arch)\<close> inside the f-string that names the library; \<^verbatim>\<open>None\<close> renders too.\<close>

definition str_arch :: "string option \<Rightarrow> string" where
  "str_arch a = (case a of None \<Rightarrow> ''None'' | Some x \<Rightarrow> x)"

text \<open>
  \<^verbatim>\<open>DwarfImporter.export_type_library\<close>. After the first read the view is cached, so the
  later reads of \<^verbatim>\<open>self.base_binaryview\<close> return the same view.
\<close>

definition export_type_library ::
  "platform \<Rightarrow> path option \<Rightarrow> importer \<times> trace \<Rightarrow> (error + unit) \<times> importer \<times> trace" where
  "export_type_library pl output_file s =
     (case import_debug_info pl s of
        (Inl e, s1) \<Rightarrow> (Inl e, s1)
      | (Inr u, s1) \<Rightarrow>
          (case base_binaryview pl s1 of
             (Inl e, s2) \<Rightarrow> (Inl e, s2)
           | (Inr view, imp, tr) \<Rightarrow>
               let arch = bv_arch view;
                   filename = path_name (Path (bv_filename view));
                   name = filename @ ''_'' @ str_arch arch @ ''_types''
               in (case arch of
                     None \<Rightarrow> (Inl AssertionError, imp, tr)
                   | Some a \<Rightarrow>
                       (case bv_platform view of
                          None \<Rightarrow> (Inl AssertionError, imp, tr)
                        | Some plat \<Rightarrow>
                            let lib0 = add_alternate_name filename
                                         (add_platform plat (TypeLibrary_new a name));
                                s3 = copy_types (logger imp) (bv_types view) (lib0, tr);
                                s4 = copy_functions (logger imp) (bv_functions view) s3;
                                lib = (fst s4)\<lparr>tl_finalized := True\<rparr>
                            in if \<not> finalize pl (fst s4) then (Inl AssertionError, imp, snd s4)
                               else
                                 let output_path = (case output_file of
                                                      Some p \<Rightarrow> if path_bool p then p
                                                                else type_archive imp
                                                    | None \<Rightarrow> type_archive imp);
                                     tr5 = snd s4 @ [WriteToFile lib (path_str output_path)]
                                 in (case write_to_file pl lib (path_str output_path) of
                                       Some e \<Rightarrow> (Inl e, imp, tr5)
                                     | None \<Rightarrow> (Inr (), imp, tr5))))))"

section \<open>The command line\<close>

text \<open>What \<^verbatim>\<open>parse_args\<close> hands to \<^verbatim>\<open>main\<close>: the positional base file and the two
  options, each a path or \<^verbatim>\<open>None\<close>.\<close>

record args =
  BASE_FILE :: path
  arg_dwarf_file :: "path option"
  arg_type_library :: "path option"

text \<open>
  \<^verbatim>\<open>main\<close>, from the parsed arguments on. \<^verbatim>\<open>parser.error\<close> prints the message and leaves
  the program; nothing after it runs.
\<close>

definition main ::
  "platform \<Rightarrow> host_bv \<Rightarrow> filesystem \<Rightarrow> args \<Rightarrow> trace \<Rightarrow> (error + unit) \<times> importer option \<times> trace" where
  "main pl bv fs a tr =
     (if (case arg_type_library a of
            Some t \<Rightarrow> path_bool t \<and> path_suffix t \<noteq> ''.bntl''
          | None \<Rightarrow> False)
      then (Inl (ParserError ''TYPE_ARCHIVE must have a .bntl extension.''), None, tr)
      else
        (case DwarfImporter_init bv fs (Some (BASE_FILE a)) (arg_dwarf_file a)
                (arg_type_library a) tr of
           (Inl e, tr1) \<Rightarrow> (Inl e, None, tr1)
         | (Inr importer, tr1) \<Rightarrow>
             (case export_type_library pl None (importer, tr1) of
                (r, imp, tr2) \<Rightarrow> (r, Some imp, tr2))))"

section \<open>Observing a run\<close>



text \<open>
  A platform to run the script on: loading gives an empty view of the file, parsing finds
  two types and one function, applying adds them to the view.
\<close>

definition example_platform :: platform where
  "example_platform =
     \<lparr>bn_load = (\<lambda>f opts. Inr \<lparr>bv_arch = Some ''x86_64'', bv_platform = Some ''linux-x86_64'',
                                bv_filename = f, bv_types = [], bv_functions = []\<rparr>),
      parse_debug_info = (\<lambda>b d. Inr \<lparr>di_types = [(''size_t'', 1), (''point'', 2)],
                                      di_functions = [\<lparr>fn_name = ''main'', fn_type = 3\<rparr>]\<rparr>),
      apply_debug_info = (\<lambda>b di. Inr (b\<lparr>bv_types := bv_types b @ di_types di,
                                         bv_functions := bv_functions b @ di_functions di\<rparr>)),
      update_analysis_and_wait = (\<lambda>b. Inr b),
      finalize = (\<lambda>lib. True),
      write_to_file = (\<lambda>lib f. None)\<rparr>"


text \<open>The instance that \<^verbatim>\<open>DwarfImporter(Path("foo.bin"))\<close> builds beside a
  \<^verbatim>\<open>foo.bin.dSYM\<close> bundle.\<close>

definition example_importer :: importer where
  "example_importer =
     \<lparr>base_file = Path ''foo.bin'',
      dwarf_file = Path ''foo.bin.dSYM/Contents/Resources/DWARF/foo.bin'',
      type_archive = Path ''foo.bntl'',
      logger = ''binaryninja-dwarf.DwarfImporter[foo.bin]'',
      base_binaryview_cache = None,
      import_debug_info_cached = False\<rparr>"

section \<open>Facts about paths\<close>

lemma split_sep_not_Nil: "split_sep c s \<noteq> []"
  by (induction s) (auto split: list.splits)

lemma split_sep_append_sep:
  "split_sep c (a @ c # b) = split_sep c a @ split_sep c b"
proof (induction a)
  case Nil
  show ?case by simp
next
  case (Cons x xs)
  obtain y ys where "split_sep c xs = y # ys"
    using split_sep_not_Nil [of c xs] by (cases "split_sep c xs") auto
  with Cons show ?case by simp
qed

lemma split_sep_no_sep: "x \<in> set (split_sep c s) \<Longrightarrow> c \<notin> set x"
proof (induction s arbitrary: x)
  case Nil
  then show ?case by simp
next
  case (Cons a s)
  obtain y ys where y: "split_sep c s = y # ys"
    using split_sep_not_Nil [of c s] by (cases "split_sep c s") auto
  with Cons show ?case by (auto split: if_splits)
qed

text \<open>Every path that the constructor parses is well formed.\<close>

lemma Path_wf: "path_wf (Path s)"
  by (auto simp: path_wf_def Path_def splitroot_def dest: split_sep_no_sep)

lemma splitroot_append:
  assumes "3 \<le> length s"
  shows "splitroot (s @ u) = (fst (splitroot s), snd (splitroot s) @ u)"
proof -
  from assms obtain a b c r where s: "s = a # b # c # r"
    by (cases s; cases "tl s"; cases "tl (tl s)") auto
  show ?thesis unfolding s by (simp add: splitroot_def)
qed

lemma Path_relative:
  "take 1 t \<noteq> ''/'' \<Longrightarrow>
     Path t = \<lparr>path_root = [], path_tail = filter (\<lambda>x. x \<noteq> [] \<and> x \<noteq> ''.'') (split_sep CHR ''/'' t)\<rparr>"
  by (simp add: Path_def splitroot_def)

lemma joinpath_Path:
  assumes "3 \<le> length s" and "take 1 t \<noteq> ''/''"
  shows "joinpath (Path s) t = Path (s @ CHR ''/'' # t)"
proof -
  have "Path (s @ CHR ''/'' # t) =
      \<lparr>path_root = path_root (Path s), path_tail = path_tail (Path s) @ path_tail (Path t)\<rparr>"
    using assms
    by (simp add: Path_def [of "s @ CHR ''/'' # t"] Path_def [of s] Path_relative
        splitroot_append split_sep_append_sep)
  moreover have "path_root (Path t) = []"
    using assms(2) by (simp add: Path_relative)
  ultimately show ?thesis by (simp add: joinpath_def Let_def)
qed

lemma path_name_no_slash:
  "path_wf p \<Longrightarrow> CHR ''/'' \<notin> set (path_name p)"
  by (auto simp: path_wf_def path_name_def)

lemma path_name_not_absolute:
  assumes "path_wf p"
  shows "take 1 (path_name p) \<noteq> ''/''"
proof
  assume "take 1 (path_name p) = ''/''"
  then have "CHR ''/'' \<in> set (take 1 (path_name p))" by simp
  then have "CHR ''/'' \<in> set (path_name p)" by (rule in_set_takeD)
  with path_name_no_slash [OF assms] show False by simp
qed

lemma dsym_inner_path:
  assumes "path_wf base"
  shows "joinpath (joinpath (joinpath (joinpath (Path (path_str base @ ''.dSYM'')) ''Contents'')
            ''Resources'') ''DWARF'') (path_name base) =
         Path (path_str base @ ''.dSYM/Contents/Resources/DWARF/'' @ path_name base)"
proof -
  let ?s = "path_str base"
  have "joinpath (Path (?s @ ''.dSYM'')) ''Contents'' = Path (?s @ ''.dSYM/Contents'')"
    using joinpath_Path [of "?s @ ''.dSYM''" "''Contents''"] by simp
  moreover have "joinpath (Path (?s @ ''.dSYM/Contents'')) ''Resources'' =
      Path (?s @ ''.dSYM/Contents/Resources'')"
    using joinpath_Path [of "?s @ ''.dSYM/Contents''" "''Resources''"] by simp
  moreover have "joinpath (Path (?s @ ''.dSYM/Contents/Resources'')) ''DWARF'' =
      Path (?s @ ''.dSYM/Contents/Resources/DWARF'')"
    using joinpath_Path [of "?s @ ''.dSYM/Contents/Resources''" "''DWARF''"] by simp
  moreover have "joinpath (Path (?s @ ''.dSYM/Contents/Resources/DWARF'')) (path_name base) =
      Path (?s @ ''.dSYM/Contents/Resources/DWARF/'' @ path_name base)"
    using joinpath_Path [of "?s @ ''.dSYM/Contents/Resources/DWARF''" "path_name base"]
      path_name_not_absolute [OF assms] by simp
  ultimately show ?thesis by simp
qed

lemma Path_append_segment:
  assumes "3 \<le> length s"
  shows "path_root (Path (s @ CHR ''/'' # t)) = path_root (Path s)"
    and "\<exists>rest. path_tail (Path (s @ CHR ''/'' # t)) = path_tail (Path s) @ rest"
  using assms by (simp_all add: Path_def splitroot_append split_sep_append_sep)

lemma path_exists_prefix:
  assumes "path_exists fs q" and "path_root q = path_root p" and "path_tail q = path_tail p @ rest"
  shows "path_exists fs p"
proof -
  from assms(1) obtain e where e: "e \<in> set fs" "path_root e = path_root q"
    "take (length (path_tail q)) (path_tail e) = path_tail q"
    by (auto simp: path_exists_def)
  from e(3) have "take (length (path_tail p) + length rest) (path_tail e) = path_tail p @ rest"
    by (simp add: assms(3))
  then have "take (length (path_tail p)) (take (length (path_tail p) + length rest) (path_tail e)) =
      take (length (path_tail p)) (path_tail p @ rest)"
    by (rule arg_cong)
  then have "take (length (path_tail p)) (path_tail e) = path_tail p"
    by (simp add: min_def)
  then show ?thesis using e assms(2) by (auto simp: path_exists_def)
qed

lemma inner_exists_bundle_exists:
  assumes "path_exists fs (Path (path_str base @ ''.dSYM/Contents/Resources/DWARF/'' @ n))"
  shows "path_exists fs (Path (path_str base @ ''.dSYM''))"
proof -
  let ?s = "path_str base @ ''.dSYM''"
  have len: "3 \<le> length ?s" by simp
  have eq: "path_str base @ ''.dSYM/Contents/Resources/DWARF/'' @ n =
      ?s @ CHR ''/'' # (''Contents/Resources/DWARF/'' @ n)" by simp
  from Path_append_segment [OF len, of "''Contents/Resources/DWARF/'' @ n"]
  obtain rest where "path_root (Path (?s @ CHR ''/'' # (''Contents/Resources/DWARF/'' @ n))) = path_root (Path ?s)"
    "path_tail (Path (?s @ CHR ''/'' # (''Contents/Resources/DWARF/'' @ n))) = path_tail (Path ?s) @ rest"
    by blast
  with assms show ?thesis unfolding eq by (rule path_exists_prefix)
qed

lemma endswith_append: "endswith (a @ b) b"
  by (simp add: endswith_def)

lemma join_sep_last:
  "xs \<noteq> [] \<Longrightarrow> \<exists>pre. join_sep c xs = pre @ last xs"
proof (induction c xs rule: join_sep.induct)
  case (3 c x y ys)
  then obtain pre where "join_sep c (y # ys) = pre @ last (y # ys)" by auto
  then have "join_sep c (x # y # ys) = (x @ c # pre) @ last (x # y # ys)" by simp
  then show ?case by blast
qed auto

lemma path_str_ends_with_name:
  assumes "path_name p \<noteq> []"
  shows "\<exists>pre. path_str p = pre @ path_name p"
proof -
  from assms have ne: "path_tail p \<noteq> []" and nm: "path_name p = last (path_tail p)"
    by (auto simp: path_name_def split: if_splits)
  from join_sep_last [OF ne] obtain pre where
    pre: "join_sep CHR ''/'' (path_tail p) = pre @ last (path_tail p)" by blast
  with assms nm have "path_str p = (path_root p @ pre) @ path_name p"
    by (simp add: path_str_def Let_def)
  then show ?thesis by blast
qed

lemma path_suffix_split:
  "path_name p =
     take (length (path_name p) - length (path_suffix p)) (path_name p) @ path_suffix p"
proof -
  have "take (length n - length (drop i n)) n @ drop i n = n" if "i \<le> length n"
    for i and n :: string
    using that by simp
  then show ?thesis
    by (auto simp: path_suffix_def Let_def simp del: length_drop)
qed

lemma path_str_ends_with_suffix:
  assumes "path_suffix p \<noteq> []"
  shows "endswith (path_str p) (path_suffix p)"
proof -
  from assms have "path_name p \<noteq> []"
    by (auto simp: path_suffix_def Let_def split: if_splits)
  from path_str_ends_with_name [OF this] obtain pre where "path_str p = pre @ path_name p"
    by blast
  then have "path_str p = (pre @ take (length (path_name p) - length (path_suffix p)) (path_name p))
      @ path_suffix p"
    using path_suffix_split [of p] by simp
  then show ?thesis by (metis endswith_append)
qed


section \<open>Discovery of the debug file\<close>




text \<open>
  Claim C2: for the base file \<^verbatim>\<open>foo.bin\<close> with the sibling
  \<^verbatim>\<open>foo.bin.dSYM/Contents/Resources/DWARF/foo.bin\<close> present, discovery returns exactly
  that path.
\<close>

theorem find_dwarf_file_foo_bin:
  assumes "path_exists fs (Path ''foo.bin.dSYM/Contents/Resources/DWARF/foo.bin'')"
  shows "fst (find_dwarf_file fs lg (Path ''foo.bin'') tr) =
           Inr (Path ''foo.bin.dSYM/Contents/Resources/DWARF/foo.bin'') \<and>
         path_str (Path ''foo.bin.dSYM/Contents/Resources/DWARF/foo.bin'') =
           ''foo.bin.dSYM/Contents/Resources/DWARF/foo.bin''"
proof -
  have wf: "path_wf (Path ''foo.bin'')" by code_simp
  have str: "path_str (Path ''foo.bin'') = ''foo.bin''" "path_name (Path ''foo.bin'') = ''foo.bin''"
    by code_simp+
  have "path_exists fs (Path (path_str (Path ''foo.bin'') @ ''.dSYM''))"
    using inner_exists_bundle_exists [of fs "Path ''foo.bin''" "''foo.bin''"] assms
    by (simp add: str)
  moreover have "path_str (Path ''foo.bin.dSYM/Contents/Resources/DWARF/foo.bin'') =
           ''foo.bin.dSYM/Contents/Resources/DWARF/foo.bin''"
    by code_simp
  ultimately show ?thesis
    using dsym_inner_path [OF wf] by (simp add: find_dwarf_file_def Let_def str)
qed

theorem find_dwarf_file_foo_bin_witness:
  "path_exists [Path ''foo.bin'', Path ''foo.bin.dSYM/Contents/Resources/DWARF/foo.bin'']
     (Path ''foo.bin.dSYM/Contents/Resources/DWARF/foo.bin'') \<and>
   fst (find_dwarf_file [Path ''foo.bin'', Path ''foo.bin.dSYM/Contents/Resources/DWARF/foo.bin'']
          ''binaryninja-dwarf.DwarfImporter[foo.bin]'' (Path ''foo.bin'') []) =
     Inr (Path ''foo.bin.dSYM/Contents/Resources/DWARF/foo.bin'')"
proof -
  have ex: "path_exists [Path ''foo.bin'', Path ''foo.bin.dSYM/Contents/Resources/DWARF/foo.bin'']
     (Path ''foo.bin.dSYM/Contents/Resources/DWARF/foo.bin'')"
    by code_simp
  from find_dwarf_file_foo_bin [OF ex] ex show ?thesis by blast
qed

section \<open>Construction\<close>

lemma find_dwarf_file_trace:
  "snd (find_dwarf_file fs lg base tr) =
     tr @ [LogDebug lg (''Looking for DWARF file for '' @ path_str base @ '' @ ''
             @ path_str (Path (path_str base @ ''.dSYM''))),
           PathExists (Path (path_str base @ ''.dSYM''))]"
  by (simp add: find_dwarf_file_def Let_def)


text \<open>
  The guard \<^verbatim>\<open>if not self.base_file\<close> is never taken, since every path is true: no
  construction ends in its \<^verbatim>\<open>ValueError\<close>. A view without a file name gives the base
  path \<^verbatim>\<open>.\<close>, and construction goes on to probe \<^verbatim>\<open>..dSYM\<close>.
\<close>

lemma init_guard_never_taken:
  "fst (DwarfImporter_init bv fs bf df ta tr) \<noteq>
     Inl (ValueError ''No base file provided and no file open in BinaryNinja'')"
  by (auto simp: DwarfImporter_init_def path_bool_def Let_def find_dwarf_file_def
      bv_file_filename_def with_suffix_def
      split: option.splits sum.splits prod.splits host_bv.splits if_splits)

lemma init_unnamed_view:
  "snd (DwarfImporter_init (BvView []) fs None None ta tr) =
     tr @ [LogDebug ''binaryninja-dwarf.DwarfImporter[]'' ''Looking for DWARF file for . @ ..dSYM'',
           PathExists (Path ''..dSYM'')]"
proof -
  have strs: "path_str (Path []) = ''.''" "path_name (Path []) = []"
    "path_str (Path ''..dSYM'') = ''..dSYM''"
    by code_simp+
  obtain r t where f: "find_dwarf_file fs ''binaryninja-dwarf.DwarfImporter[]'' (Path []) tr = (r, t)"
    by (cases "find_dwarf_file fs ''binaryninja-dwarf.DwarfImporter[]'' (Path []) tr") auto
  have t: "t = tr @ [LogDebug ''binaryninja-dwarf.DwarfImporter[]''
                       ''Looking for DWARF file for . @ ..dSYM'',
                     PathExists (Path ''..dSYM'')]"
    using find_dwarf_file_trace [of fs "''binaryninja-dwarf.DwarfImporter[]''" "Path []" tr]
    by (simp add: f strs)
  show ?thesis
    by (cases r; cases ta)
      (simp_all add: DwarfImporter_init_def path_bool_def Let_def bv_file_filename_def
        strs f t split: sum.splits)
qed

text \<open>
  Claim C3: constructed with a base file and an explicit debug file, the importer never
  runs discovery (which would have logged a line and probed the file system, lengthening
  the trace), and whenever construction returns an importer its \<^verbatim>\<open>dwarf_file\<close> is the
  path given. Construction returns one unless the archive path is left out and the base
  file has an empty name.
\<close>

theorem init_explicit_dwarf_file:
  "snd (DwarfImporter_init bv fs (Some b) (Some d) ta tr) = tr \<and>
   (\<forall>imp. fst (DwarfImporter_init bv fs (Some b) (Some d) ta tr) = Inr imp
      \<longrightarrow> dwarf_file imp = d \<and> base_file imp = b) \<and>
   (ta \<noteq> None \<or> path_name b \<noteq> []
      \<longrightarrow> (\<exists>imp. fst (DwarfImporter_init bv fs (Some b) (Some d) ta tr) = Inr imp)) \<and>
   snd (find_dwarf_file fs lg b' tr) \<noteq> tr"
proof -
  have "snd (find_dwarf_file fs lg b' tr) \<noteq> tr"
    by (simp add: find_dwarf_file_trace)
  moreover have "snd (DwarfImporter_init bv fs (Some b) (Some d) ta tr) = tr"
    by (simp add: DwarfImporter_init_def path_bool_def Let_def split: option.splits sum.splits)
  moreover have "\<forall>imp. fst (DwarfImporter_init bv fs (Some b) (Some d) ta tr) = Inr imp
      \<longrightarrow> dwarf_file imp = d \<and> base_file imp = b"
    by (auto simp: DwarfImporter_init_def path_bool_def Let_def split: option.splits sum.splits)
  moreover have "ta \<noteq> None \<or> path_name b \<noteq> []
      \<longrightarrow> (\<exists>imp. fst (DwarfImporter_init bv fs (Some b) (Some d) ta tr) = Inr imp)"
    by (auto simp: DwarfImporter_init_def path_bool_def with_suffix_def Let_def
        split: option.splits sum.splits)
  ultimately show ?thesis by blast
qed

theorem init_explicit_dwarf_file_witness:
  "(\<exists>imp. fst (DwarfImporter_init BvUnbound [] (Some (Path ''foo.bin''))
                 (Some (Path ''foo.debug'')) None []) = Inr imp \<and>
          dwarf_file imp = Path ''foo.debug'') \<and>
   snd (DwarfImporter_init BvUnbound [] (Some (Path ''foo.bin''))
          (Some (Path ''foo.debug'')) None []) = []"
proof -
  have n: "path_name (Path ''foo.bin'') \<noteq> []" by code_simp
  from init_explicit_dwarf_file [of BvUnbound "[]" "Path ''foo.bin''" "Path ''foo.debug''" None "[]"
      "''log''" "Path ''foo.bin''"] n
  show ?thesis by blast
qed





section \<open>The command line\<close>

text \<open>
  Claim C4: when \<^verbatim>\<open>--type-library\<close> is given and its path does not end in \<^verbatim>\<open>.bntl\<close>,
  \<^verbatim>\<open>main\<close> leaves through the parser's error: no importer is constructed and the trace
  holds no probe, load or analysis.
\<close>

theorem main_rejects_extension:
  assumes "arg_type_library a = Some t" and "\<not> endswith (path_str t) ''.bntl''"
  shows "main pl bv fs a tr =
           (Inl (ParserError ''TYPE_ARCHIVE must have a .bntl extension.''), None, tr)"
proof -
  have "path_suffix t \<noteq> ''.bntl''"
  proof
    assume eq: "path_suffix t = ''.bntl''"
    then have "path_suffix t \<noteq> []" by simp
    from path_str_ends_with_suffix [OF this] assms(2) show False by (simp add: eq)
  qed
  with assms(1) show ?thesis by (simp add: main_def path_bool_def)
qed

theorem main_rejects_extension_witness:
  "\<not> endswith (path_str (Path ''out/types.json'')) ''.bntl'' \<and>
   main example_platform BvUnbound [Path ''foo.bin.dSYM'']
     \<lparr>BASE_FILE = Path ''foo.bin'', arg_dwarf_file = None,
      arg_type_library = Some (Path ''out/types.json'')\<rparr> [] =
     (Inl (ParserError ''TYPE_ARCHIVE must have a .bntl extension.''), None, [])"
proof -
  have ne: "\<not> endswith (path_str (Path ''out/types.json'')) ''.bntl''" by code_simp
  from main_rejects_extension [OF _ ne, of "\<lparr>BASE_FILE = Path ''foo.bin'', arg_dwarf_file = None,
      arg_type_library = Some (Path ''out/types.json'')\<rparr>" example_platform BvUnbound
      "[Path ''foo.bin.dSYM'']" "[]"] ne
  show ?thesis by simp
qed

section \<open>Import and export\<close>

lemma copy_types_eq:
  "copy_types lg ts (lib, tr) =
     (lib\<lparr>tl_named_types := tl_named_types lib @ ts\<rparr>,
      tr @ map (\<lambda>(n, t). LogDebug lg (''Adding type '' @ n @ '' to type library'')) ts)"
  by (induction ts arbitrary: lib tr) (auto simp: add_named_type_def)

lemma copy_functions_eq:
  "copy_functions lg fs (lib, tr) =
     (lib\<lparr>tl_named_objects := tl_named_objects lib @ map (\<lambda>f. (fn_name f, fn_type f)) fs\<rparr>,
      tr @ map (\<lambda>f. LogDebug lg (''Adding function '' @ fn_name f @ '' to type library'')) fs)"
  by (induction fs arbitrary: lib tr) (auto simp: add_named_object_def)





lemma import_debug_info_paths:
  assumes "import_debug_info pl (imp, tr) = (r, imp', tr')"
  shows "type_archive imp' = type_archive imp" and "base_file imp' = base_file imp"
    and "dwarf_file imp' = dwarf_file imp" and "logger imp' = logger imp"
  using assms
  by (auto simp: import_debug_info_def base_binaryview_def Let_def
      split: option.splits sum.splits prod.splits if_splits)

lemma base_binaryview_paths:
  assumes "base_binaryview pl (imp, tr) = (r, imp', tr')"
  shows "type_archive imp' = type_archive imp" and "logger imp' = logger imp"
  using assms
  by (auto simp: base_binaryview_def Let_def split: option.splits sum.splits)

lemma export_type_library_Inr:
  assumes "export_type_library pl out (imp, tr) = (Inr (), imp', tr')"
  shows "\<exists>imp1 tr1 view tr2 a plat lib0.
           import_debug_info pl (imp, tr) = (Inr (), imp1, tr1) \<and>
           base_binaryview pl (imp1, tr1) = (Inr view, imp', tr2) \<and>
           bv_arch view = Some a \<and> bv_platform view = Some plat \<and>
           lib0 = add_alternate_name (path_name (Path (bv_filename view)))
                    (add_platform plat
                       (TypeLibrary_new a (path_name (Path (bv_filename view)) @ ''_'' @ a @ ''_types''))) \<and>
           finalize pl (fst (copy_functions (logger imp') (bv_functions view)
                               (copy_types (logger imp') (bv_types view) (lib0, tr2)))) \<and>
           tr' = snd (copy_functions (logger imp') (bv_functions view)
                        (copy_types (logger imp') (bv_types view) (lib0, tr2))) @
                 [WriteToFile
                    ((fst (copy_functions (logger imp') (bv_functions view)
                             (copy_types (logger imp') (bv_types view) (lib0, tr2))))
                       \<lparr>tl_finalized := True\<rparr>)
                    (path_str (case out of Some p \<Rightarrow> p | None \<Rightarrow> type_archive imp'))] \<and>
           write_to_file pl
             ((fst (copy_functions (logger imp') (bv_functions view)
                      (copy_types (logger imp') (bv_types view) (lib0, tr2))))
                \<lparr>tl_finalized := True\<rparr>)
             (path_str (case out of Some p \<Rightarrow> p | None \<Rightarrow> type_archive imp')) = None"
  using assms
  unfolding export_type_library_def
  by (auto simp: Let_def path_bool_def str_arch_def
      split: option.splits sum.splits prod.splits if_splits)

lemma base_binaryview_retarget:
  "base_binaryview pl (imp\<lparr>type_archive := q\<rparr>, tr) =
     (case base_binaryview pl (imp, tr) of
        (r, imp', tr') \<Rightarrow> (r, imp'\<lparr>type_archive := q\<rparr>, tr'))"
  by (simp add: base_binaryview_def Let_def split: option.splits sum.splits)

lemma import_debug_info_retarget:
  "import_debug_info pl (imp\<lparr>type_archive := q\<rparr>, tr) =
     (case import_debug_info pl (imp, tr) of
        (r, imp', tr') \<Rightarrow> (r, imp'\<lparr>type_archive := q\<rparr>, tr'))"
  by (simp add: import_debug_info_def base_binaryview_def Let_def
      split: option.splits sum.splits)

lemma export_type_library_retarget:
  "export_type_library pl (Some p) (imp\<lparr>type_archive := q\<rparr>, tr) =
     (case export_type_library pl (Some p) (imp, tr) of
        (r, imp', tr') \<Rightarrow> (r, imp'\<lparr>type_archive := q\<rparr>, tr'))"
proof -
  obtain r1 imp1 tr1 where i: "import_debug_info pl (imp, tr) = (r1, imp1, tr1)"
    by (cases "import_debug_info pl (imp, tr)") auto
  obtain r2 imp2 tr2 where b: "base_binaryview pl (imp1, tr1) = (r2, imp2, tr2)"
    by (cases "base_binaryview pl (imp1, tr1)") auto
  show ?thesis
    unfolding export_type_library_def import_debug_info_retarget i
    by (cases r1; cases r2)
      (simp_all add: base_binaryview_retarget b Let_def path_bool_def
        split: option.splits)
qed




lemma copy_both_trace:
  "\<exists>logs. snd (copy_functions lg fs (copy_types lg ts (lib, tr))) = tr @ logs"
  by (simp add: copy_types_eq copy_functions_eq)



lemma export_type_library_written:
  assumes "export_type_library pl out (imp, tr) = (Inr (), imp', tr')"
  shows "type_archive imp' = type_archive imp"
    and "\<exists>lib tr0. tr' = tr0 @ [WriteToFile lib
                     (path_str (case out of Some p \<Rightarrow> p | None \<Rightarrow> type_archive imp))] \<and>
                  write_to_file pl lib
                     (path_str (case out of Some p \<Rightarrow> p | None \<Rightarrow> type_archive imp)) = None"
proof -
  from export_type_library_Inr [OF assms]
  obtain imp1 tr1 view tr2 where
    i: "import_debug_info pl (imp, tr) = (Inr (), imp1, tr1)" and
    b: "base_binaryview pl (imp1, tr1) = (Inr view, imp', tr2)"
    by blast
  show eq: "type_archive imp' = type_archive imp"
    using import_debug_info_paths(1) [OF i] base_binaryview_paths(1) [OF b] by simp
  from export_type_library_Inr [OF assms, unfolded eq]
  show "\<exists>lib tr0. tr' = tr0 @ [WriteToFile lib
                     (path_str (case out of Some p \<Rightarrow> p | None \<Rightarrow> type_archive imp))] \<and>
                  write_to_file pl lib
                     (path_str (case out of Some p \<Rightarrow> p | None \<Rightarrow> type_archive imp)) = None"
    by blast
qed

lemma export_type_library_keeps_archive:
  "type_archive (fst (snd (export_type_library pl out (imp, tr)))) = type_archive imp"
proof -
  obtain r1 imp1 tr1 where i: "import_debug_info pl (imp, tr) = (r1, imp1, tr1)"
    by (cases "import_debug_info pl (imp, tr)") auto
  obtain r2 imp2 tr2 where b: "base_binaryview pl (imp1, tr1) = (r2, imp2, tr2)"
    by (cases "base_binaryview pl (imp1, tr1)") auto
  have ta: "type_archive imp1 = type_archive imp" "type_archive imp2 = type_archive imp1"
    using import_debug_info_paths(1) [OF i] base_binaryview_paths(1) [OF b] by simp_all
  show ?thesis
    unfolding export_type_library_def i
    by (cases r1; cases r2) (simp_all add: b ta Let_def split: option.splits)
qed






text \<open>
  Claim C9: the extension is checked by \<^verbatim>\<open>main\<close> alone. The constructor stores whatever
  archive path it is given, with the same outcome for any two paths, and a later export
  writes to it; \<^verbatim>\<open>export_type_library\<close> writes to whatever output path it is given, and
  on a platform whose writer accepts every path its outcome does not depend on the path.
\<close>

theorem type_archive_not_validated:
  "fst (DwarfImporter_init bv fs bf df (Some t) tr) =
     map_sum id (\<lambda>i. i\<lparr>type_archive := t\<rparr>) (fst (DwarfImporter_init bv fs bf df (Some t') tr)) \<and>
   snd (DwarfImporter_init bv fs bf df (Some t) tr) =
     snd (DwarfImporter_init bv fs bf df (Some t') tr) \<and>
   (\<forall>imp. fst (DwarfImporter_init bv fs bf df (Some t) tr) = Inr imp \<longrightarrow> type_archive imp = t) \<and>
   (\<forall>imp tr1 imp' tr'.
      fst (DwarfImporter_init bv fs bf df (Some t) tr) = Inr imp \<and>
      export_type_library pl None (imp, tr1) = (Inr (), imp', tr') \<longrightarrow>
      (\<exists>lib tr0. tr' = tr0 @ [WriteToFile lib (path_str t)])) \<and>
   (\<forall>imp' tr'. export_type_library pl (Some p) s = (Inr (), imp', tr') \<longrightarrow>
      (\<exists>lib tr0. tr' = tr0 @ [WriteToFile lib (path_str p)])) \<and>
   ((\<forall>lib f. write_to_file pl lib f = None) \<longrightarrow>
      fst (export_type_library pl (Some p) s) = fst (export_type_library pl (Some p') s)) \<and>
   (\<forall>a. arg_type_library a = Some t \<and> path_suffix t \<noteq> ''.bntl'' \<longrightarrow>
      fst (main pl bv fs a tr) = Inl (ParserError ''TYPE_ARCHIVE must have a .bntl extension.''))"
proof -
  have 1: "fst (DwarfImporter_init bv fs bf df (Some t) tr) =
     map_sum id (\<lambda>i. i\<lparr>type_archive := t\<rparr>) (fst (DwarfImporter_init bv fs bf df (Some t') tr))"
    by (simp add: DwarfImporter_init_def path_bool_def Let_def
        split: option.splits sum.splits prod.splits)
  have 2: "snd (DwarfImporter_init bv fs bf df (Some t) tr) =
     snd (DwarfImporter_init bv fs bf df (Some t') tr)"
    by (simp add: DwarfImporter_init_def path_bool_def Let_def
        split: option.splits sum.splits prod.splits)
  have 3: "\<forall>imp. fst (DwarfImporter_init bv fs bf df (Some t) tr) = Inr imp \<longrightarrow> type_archive imp = t"
    by (auto simp: DwarfImporter_init_def path_bool_def Let_def
        split: option.splits sum.splits prod.splits)
  have 4: "\<forall>imp tr1 imp' tr'.
      fst (DwarfImporter_init bv fs bf df (Some t) tr) = Inr imp \<and>
      export_type_library pl None (imp, tr1) = (Inr (), imp', tr') \<longrightarrow>
      (\<exists>lib tr0. tr' = tr0 @ [WriteToFile lib (path_str t)])"
  proof (intro allI impI, elim conjE)
    fix imp tr1 imp' tr'
    assume i: "fst (DwarfImporter_init bv fs bf df (Some t) tr) = Inr imp"
      and e: "export_type_library pl None (imp, tr1) = (Inr (), imp', tr')"
    from 3 i have "type_archive imp = t" by blast
    with export_type_library_written(2) [OF e]
    show "\<exists>lib tr0. tr' = tr0 @ [WriteToFile lib (path_str t)]" by auto
  qed
  have 5: "\<forall>imp' tr'. export_type_library pl (Some p) s = (Inr (), imp', tr') \<longrightarrow>
      (\<exists>lib tr0. tr' = tr0 @ [WriteToFile lib (path_str p)])"
  proof (intro allI impI)
    fix imp' tr'
    assume e: "export_type_library pl (Some p) s = (Inr (), imp', tr')"
    obtain imp tr where s: "s = (imp, tr)" by (cases s)
    from export_type_library_written(2) [OF e [unfolded s]]
    show "\<exists>lib tr0. tr' = tr0 @ [WriteToFile lib (path_str p)]" by auto
  qed
  have 6: "(\<forall>lib f. write_to_file pl lib f = None) \<longrightarrow>
      fst (export_type_library pl (Some p) s) = fst (export_type_library pl (Some p') s)"
    by (simp add: export_type_library_def Let_def path_bool_def
        split: option.splits sum.splits prod.splits)
  have 7: "\<forall>a. arg_type_library a = Some t \<and> path_suffix t \<noteq> ''.bntl'' \<longrightarrow>
      fst (main pl bv fs a tr) = Inl (ParserError ''TYPE_ARCHIVE must have a .bntl extension.'')"
    by (simp add: main_def path_bool_def)
  from 1 2 3 4 5 6 7 show ?thesis by blast
qed

theorem type_archive_not_validated_witness:
  "path_suffix (Path ''types.txt'') = ''.txt'' \<and>
   (\<exists>imp. fst (DwarfImporter_init BvUnbound [Path ''foo.bin.dSYM''] (Some (Path ''foo.bin''))
                  None (Some (Path ''types.txt'')) []) = Inr imp \<and>
          type_archive imp = Path ''types.txt'') \<and>
   fst (export_type_library example_platform (Some (Path ''dump.txt'')) (example_importer, [])) =
     Inr () \<and>
   (\<exists>lib tr0.
      snd (snd (export_type_library example_platform (Some (Path ''dump.txt''))
                  (example_importer, []))) = tr0 @ [WriteToFile lib ''dump.txt''])"
proof -
  let ?init = "DwarfImporter_init BvUnbound [Path ''foo.bin.dSYM''] (Some (Path ''foo.bin''))
                  None (Some (Path ''types.txt'')) []"
  let ?run = "export_type_library example_platform (Some (Path ''dump.txt'')) (example_importer, [])"
  have s: "path_suffix (Path ''types.txt'') = ''.txt''" by code_simp
  have i: "\<not> isl (fst ?init)" by code_simp
  then obtain imp where imp: "fst ?init = Inr imp" by (cases "fst ?init") auto
  have r: "fst ?run = Inr ()" by code_simp
  have p: "path_str (Path ''dump.txt'') = ''dump.txt''" by code_simp
  obtain imp' tr' where e: "?run = (Inr (), imp', tr')"
    using r by (cases ?run) auto
  from type_archive_not_validated [of BvUnbound "[Path ''foo.bin.dSYM'']" "Some (Path ''foo.bin'')"
      None "Path ''types.txt''" "[]" "Path ''types.txt''" example_platform "Path ''dump.txt''"
      "(example_importer, [])" "Path ''dump.txt''"]
    s imp r p show ?thesis
    by (auto simp: e)
qed

text \<open>
  Claim C10: an export that returns has written, as its last call, to the explicit
  output path when one is given and to the stored archive path otherwise; the stored path
  is never changed, and with an explicit output path the run is the same whatever the
  stored path is.
\<close>

theorem export_type_library_output_path:
  "type_archive (fst (snd (export_type_library pl out (imp, tr)))) = type_archive imp \<and>
   (\<forall>imp' tr'. export_type_library pl out (imp, tr) = (Inr (), imp', tr') \<longrightarrow>
      (\<exists>lib tr0. tr' = tr0 @ [WriteToFile lib
                     (path_str (case out of Some p \<Rightarrow> p | None \<Rightarrow> type_archive imp))] \<and>
                  write_to_file pl lib
                     (path_str (case out of Some p \<Rightarrow> p | None \<Rightarrow> type_archive imp)) = None)) \<and>
   export_type_library pl (Some p) (imp\<lparr>type_archive := q\<rparr>, tr) =
     (case export_type_library pl (Some p) (imp, tr) of
        (r, imp', tr') \<Rightarrow> (r, imp'\<lparr>type_archive := q\<rparr>, tr'))"
proof -
  have "\<forall>imp' tr'. export_type_library pl out (imp, tr) = (Inr (), imp', tr') \<longrightarrow>
      (\<exists>lib tr0. tr' = tr0 @ [WriteToFile lib
                     (path_str (case out of Some p \<Rightarrow> p | None \<Rightarrow> type_archive imp))] \<and>
                  write_to_file pl lib
                     (path_str (case out of Some p \<Rightarrow> p | None \<Rightarrow> type_archive imp)) = None)"
    by (intro allI impI) (rule export_type_library_written(2))
  then show ?thesis
    by (simp only: export_type_library_keeps_archive export_type_library_retarget simp_thms)
qed

theorem export_type_library_output_path_witness:
  "fst (export_type_library example_platform (Some (Path ''out.bntl'')) (example_importer, [])) =
     Inr () \<and>
   type_archive (fst (snd (export_type_library example_platform (Some (Path ''out.bntl''))
                             (example_importer, [])))) = Path ''foo.bntl'' \<and>
   (\<exists>lib tr0.
      snd (snd (export_type_library example_platform (Some (Path ''out.bntl''))
                  (example_importer, []))) = tr0 @ [WriteToFile lib ''out.bntl'']) \<and>
   fst (export_type_library example_platform None (example_importer, [])) = Inr () \<and>
   (\<exists>lib tr0.
      snd (snd (export_type_library example_platform None (example_importer, []))) =
        tr0 @ [WriteToFile lib ''foo.bntl''])"
proof -
  let ?run = "export_type_library example_platform (Some (Path ''out.bntl'')) (example_importer, [])"
  let ?def = "export_type_library example_platform None (example_importer, [])"
  have r: "fst ?run = Inr ()" "fst ?def = Inr ()" by code_simp+
  have p: "path_str (Path ''out.bntl'') = ''out.bntl''"
    "path_str (type_archive example_importer) = ''foo.bntl''"
    "type_archive example_importer = Path ''foo.bntl''"
    by code_simp+
  obtain imp' tr' where e: "?run = (Inr (), imp', tr')"
    using r(1) by (cases ?run) auto
  obtain imp'' tr'' where d: "?def = (Inr (), imp'', tr'')"
    using r(2) by (cases ?def) auto
  from export_type_library_output_path [of example_platform "Some (Path ''out.bntl'')"
      example_importer "[]" "Path ''out.bntl''" "Path ''foo.bntl''"]
    export_type_library_output_path [of example_platform None example_importer "[]"
      "Path ''out.bntl''" "Path ''foo.bntl''"]
    r p show ?thesis
    by (auto simp: e d)
qed

end
